theory Spec2Isabelle
  imports Main "HOL-Library.AList"
begin

section \<open>The signalling servers of server.js\<close>

text \<open>
  The file \<^verbatim>\<open>src/server.js\<close> holds three Socket.IO servers. The first (the
  discovery server) identifies a peer by its socket id and relays one \<^verbatim>\<open>signal\<close>
  event; the second (the login server) keeps the table \<^verbatim>\<open>users\<close> from a user id that
  the client announces to a socket id, and relays \<^verbatim>\<open>offer\<close>, \<^verbatim>\<open>answer\<close>,
  \<^verbatim>\<open>ice-candidate\<close> and \<^verbatim>\<open>chat-message\<close>. Both are embedded here. The third server
  relays \<^verbatim>\<open>signal\<close> as the first does and keeps no table; the properties below do not
  rest on it.

  A handler is a function from the server state, the socket it is bound to and the
  event's argument to either the exception it throws or the new state together with the
  list of events it hands to the transport, in order. Console output is not part of the
  state; what is kept of a \<^verbatim>\<open>console.log\<close> call is the exception that building its
  template string can throw.
\<close>

subsection \<open>JavaScript values\<close>

text \<open>
  An event argument is what Socket.IO decodes from the wire: a JSON value, or
  \<^verbatim>\<open>undefined\<close> when the client sent none. The server never computes with a number; it
  tests it for truth and turns it into text, so a number is held as the text that
  \<^verbatim>\<open>ToString\<close> gives for it (\<^verbatim>\<open>0\<close> and \<^verbatim>\<open>-0\<close> both as \<open>''0''\<close>). An object is the
  list of its own properties.
\<close>

datatype jsval =
    JUndefined
  | JNull
  | JBool bool
  | JNum string
  | JStr string
  | JArr "jsval list"
  | JObj "(string \<times> jsval) list"

datatype js_error = TypeError

type_synonym 'a result = "js_error + 'a"

text \<open>\<^verbatim>\<open>ToBoolean\<close>: what \<^verbatim>\<open>if (v)\<close> and \<^verbatim>\<open>!v\<close> test.\<close>

fun truthy :: "jsval \<Rightarrow> bool" where
  "truthy JUndefined = False"
| "truthy JNull = False"
| "truthy (JBool b) = b"
| "truthy (JNum t) = (t \<noteq> ''0'' \<and> t \<noteq> ''NaN'')"
| "truthy (JStr t) = (t \<noteq> [])"
| "truthy (JArr xs) = True"
| "truthy (JObj kvs) = True"

text \<open>
  \<^verbatim>\<open>ToString\<close>, which a template string applies to each of its holes and a property
  access \<^verbatim>\<open>users[v]\<close> applies to its key. An array is joined with commas, an
  \<^verbatim>\<open>undefined\<close> or \<^verbatim>\<open>null\<close> element giving the empty text. A decoded object has the
  inherited \<^verbatim>\<open>toString\<close> unless it has an own property of that name; the own property
  is never a function, and the conversion then throws.
\<close>

function js_to_string :: "jsval \<Rightarrow> string result"
  and js_join :: "jsval list \<Rightarrow> string result"
where
  "js_to_string JUndefined = Inr ''undefined''"
| "js_to_string JNull = Inr ''null''"
| "js_to_string (JBool b) = Inr (if b then ''true'' else ''false'')"
| "js_to_string (JNum t) = Inr t"
| "js_to_string (JStr t) = Inr t"
| "js_to_string (JArr xs) = js_join xs"
| "js_to_string (JObj kvs) =
     (if ''toString'' \<in> fst ` set kvs then Inl TypeError else Inr ''[object Object]'')"
| "js_join [] = Inr []"
| "js_join (x # xs) =
     (case (if x = JUndefined \<or> x = JNull then Inr [] else js_to_string x) of
        Inl e \<Rightarrow> Inl e
      | Inr t \<Rightarrow>
          (if xs = [] then Inr t
           else (case js_join xs of Inl e \<Rightarrow> Inl e | Inr r \<Rightarrow> Inr (t @ '','' @ r))))"
  by pat_completeness auto
termination
  by (relation "measure (\<lambda>a. case a of Inl v \<Rightarrow> size v | Inr vs \<Rightarrow> size_list size vs)") auto

text \<open>
  Reading a property of an event argument by destructuring. It is used at the names
  \<^verbatim>\<open>targetUserId\<close>, \<^verbatim>\<open>offer\<close>, \<^verbatim>\<open>answer\<close>, \<^verbatim>\<open>candidate\<close>, \<^verbatim>\<open>message\<close>, \<^verbatim>\<open>to\<close>,
  \<^verbatim>\<open>from\<close> and \<^verbatim>\<open>signal\<close> only, none of which a built-in prototype defines, so a value
  that is not an object, or an object without that own property, gives \<^verbatim>\<open>undefined\<close>.
\<close>

definition get_prop :: "jsval \<Rightarrow> string \<Rightarrow> jsval" where
  "get_prop v k =
     (case v of
        JObj kvs \<Rightarrow> (case map_of kvs k of Some x \<Rightarrow> x | None \<Rightarrow> JUndefined)
      | _ \<Rightarrow> JUndefined)"

text \<open>Destructuring \<^verbatim>\<open>undefined\<close> or \<^verbatim>\<open>null\<close> throws a \<^verbatim>\<open>TypeError\<close>.\<close>

definition object_coercible :: "jsval \<Rightarrow> bool" where
  "object_coercible v = (v \<noteq> JUndefined \<and> v \<noteq> JNull)"

subsection \<open>The table of users\<close>

text \<open>
  \<^verbatim>\<open>let users = {}\<close> maps a user id to a socket id. It is an ordinary object: it is
  held as the list of its own properties, in the order of their creation, with keys that
  are property names, that is texts; behind the own properties stands
  \<^verbatim>\<open>Object.prototype\<close>, whose members a read finds when the object has no own property
  of that name.
\<close>

type_synonym sid = string

type_synonym registry = "(string \<times> sid) list"

text \<open>The property names of \<^verbatim>\<open>Object.prototype\<close>.\<close>

definition object_prototype_names :: "string list" where
  "object_prototype_names =
     [''constructor'', ''__defineGetter__'', ''__defineSetter__'', ''hasOwnProperty'',
      ''__lookupGetter__'', ''__lookupSetter__'', ''isPrototypeOf'', ''propertyIsEnumerable'',
      ''toString'', ''valueOf'', ''__proto__'', ''toLocaleString'']"

text \<open>
  What reading \<^verbatim>\<open>users[k]\<close> gives: the socket id of an own property, a member
  inherited from \<^verbatim>\<open>Object.prototype\<close> (a function, or the prototype itself for
  \<^verbatim>\<open>__proto__\<close>), or \<^verbatim>\<open>undefined\<close>.
\<close>

datatype slot = Own sid | Inherited | Absent

text \<open>\<^verbatim>\<open>if (targetSocketId)\<close>: a function or object is truthy, a text unless empty.\<close>

fun slot_truthy :: "slot \<Rightarrow> bool" where
  "slot_truthy (Own c) = (c \<noteq> [])"
| "slot_truthy Inherited = True"
| "slot_truthy Absent = False"

text \<open>
  \<^verbatim>\<open>users[userId] = socket.id\<close>: a present key keeps its place, a new one goes last.
  Assigning a text to \<^verbatim>\<open>__proto__\<close> runs the inherited setter, which ignores a value
  that is not an object: no property is created.
\<close>

definition register :: "string \<Rightarrow> sid \<Rightarrow> registry \<Rightarrow> registry" where
  "register k c us = (if k = ''__proto__'' then us else AList.update k c us)"

text \<open>\<^verbatim>\<open>delete users[socket.userId]\<close>: it removes an own property, if there is one.\<close>

definition unregister :: "string \<Rightarrow> registry \<Rightarrow> registry" where
  "unregister k us = AList.delete k us"

text \<open>\<^verbatim>\<open>users[targetUserId]\<close>\<close>

definition lookup :: "registry \<Rightarrow> string \<Rightarrow> slot" where
  "lookup us k =
     (case map_of us k of
        Some c \<Rightarrow> Own c
      | None \<Rightarrow> if k \<in> set object_prototype_names then Inherited else Absent)"

text \<open>
  \<^verbatim>\<open>Object.keys(users)\<close>: the keys that are array indices (canonical decimal numerals
  below \<open>2^32 - 1\<close>) in ascending order, then the other keys in the order of creation.
\<close>

definition is_digit :: "char \<Rightarrow> bool" where
  "is_digit c = (c \<in> set ''0123456789'')"

definition digits_val :: "string \<Rightarrow> nat" where
  "digits_val t = foldl (\<lambda>n c. 10 * n + (of_char c - 48)) 0 t"

definition is_array_index :: "string \<Rightarrow> bool" where
  "is_array_index t =
     (t \<noteq> [] \<and> list_all is_digit t \<and> (t = ''0'' \<or> hd t \<noteq> CHR ''0'')
      \<and> digits_val t < 4294967295)"

definition object_keys :: "registry \<Rightarrow> string list" where
  "object_keys us =
     sort_key digits_val (filter is_array_index (map fst us))
     @ filter (\<lambda>k. \<not> is_array_index k) (map fst us)"

subsection \<open>Socket.IO's emitters\<close>

text \<open>
  An emitted event is the socket it is delivered to, the event's name and its argument.
  The server object knows the connected sockets, in the order of their connection.
  A socket is in one room, the one named by its id: the source never calls \<^verbatim>\<open>join\<close>.
  The argument of \<^verbatim>\<open>io.to\<close> is a room name or an array of room names; a name that is
  no socket's id names a room without members, and an empty array selects no room, which
  makes the emit a broadcast to every socket.
\<close>

type_synonym emitted = "sid \<times> string \<times> jsval"

text \<open>\<^verbatim>\<open>io.emit(ev, arg)\<close>: to every connected socket.\<close>

definition io_emit :: "sid list \<Rightarrow> string \<Rightarrow> jsval \<Rightarrow> emitted list" where
  "io_emit socks ev arg = map (\<lambda>c. (c, ev, arg)) socks"

text \<open>\<^verbatim>\<open>socket.emit(ev, arg)\<close>: to the socket itself.\<close>

definition socket_emit :: "sid \<Rightarrow> string \<Rightarrow> jsval \<Rightarrow> emitted list" where
  "socket_emit sock ev arg = [(sock, ev, arg)]"

text \<open>\<^verbatim>\<open>socket.broadcast.emit(ev, arg)\<close>: to every connected socket but the socket itself.\<close>

definition broadcast_emit :: "sid list \<Rightarrow> sid \<Rightarrow> string \<Rightarrow> jsval \<Rightarrow> emitted list" where
  "broadcast_emit socks sock ev arg = map (\<lambda>c. (c, ev, arg)) (filter (\<lambda>c. c \<noteq> sock) socks)"

text \<open>Whether \<^verbatim>\<open>io.to(room)\<close> selects the socket \<open>c\<close>.\<close>

definition in_rooms :: "jsval \<Rightarrow> sid \<Rightarrow> bool" where
  "in_rooms room c =
     (case room of
        JArr rs \<Rightarrow> rs = [] \<or> JStr c \<in> set rs
      | r \<Rightarrow> r = JStr c)"

text \<open>
  \<^verbatim>\<open>io.to(room).emit(ev, arg)\<close>: to every connected socket that is selected, once.
\<close>

definition io_to_emit :: "sid list \<Rightarrow> jsval \<Rightarrow> string \<Rightarrow> jsval \<Rightarrow> emitted list" where
  "io_to_emit socks room ev arg = map (\<lambda>c. (c, ev, arg)) (filter (in_rooms room) socks)"

text \<open>
  \<^verbatim>\<open>io.to(targetSocketId).emit(ev, arg)\<close> with what the table gave: a socket id names
  that socket's room; an inherited function or object is no room that a socket is in.
\<close>

definition io_to_slot_emit :: "sid list \<Rightarrow> slot \<Rightarrow> string \<Rightarrow> jsval \<Rightarrow> emitted list" where
  "io_to_slot_emit socks target ev arg =
     (case target of
        Own c \<Rightarrow> io_to_emit socks (JStr c) ev arg
      | Inherited \<Rightarrow> []
      | Absent \<Rightarrow> [])"

subsection \<open>The login server\<close>

text \<open>
  The state of the second server: the connected sockets (\<^verbatim>\<open>io.sockets.sockets\<close>), the
  table \<^verbatim>\<open>users\<close>, and the property \<^verbatim>\<open>userId\<close> that the login handler sets on a socket
  object (\<^verbatim>\<open>undefined\<close> until then).
\<close>

record login_server =
  sockets :: "sid list"
  users :: registry
  userId :: "sid \<Rightarrow> jsval"

definition initial :: login_server where
  "initial = \<lparr>sockets = [], users = [], userId = (\<lambda>c. JUndefined)\<rparr>"

type_synonym outcome = "(login_server \<times> emitted list) result"

text \<open>
  \<^verbatim>\<open>io.on('connection', ...)\<close>: Socket.IO has entered the new socket among the connected
  ones; the callback logs, installs the handlers below and emits nothing. The socket
  object is new, so it has no \<^verbatim>\<open>userId\<close>.
\<close>

definition on_connection :: "login_server \<Rightarrow> sid \<Rightarrow> outcome" where
  "on_connection s sock =
     Inr (s\<lparr>sockets := sockets s @ [sock], userId := (userId s)(sock := JUndefined)\<rparr>, [])"

text \<open>
  \<^verbatim>\<open>socket.on('login', (userId) => ...)\<close>. The log line builds a template string from
  the argument, which is where an argument without a text form throws; the key of
  \<^verbatim>\<open>users[userId]\<close> is that same text.
\<close>

definition on_login :: "login_server \<Rightarrow> sid \<Rightarrow> jsval \<Rightarrow> outcome" where
  "on_login s sock uid =
     (if \<not> truthy uid then Inr (s, [])
      else
        (case js_to_string uid of
           Inl e \<Rightarrow> Inl e
         | Inr k \<Rightarrow>
             (let s' = s\<lparr>users := register k sock (users s),
                         userId := (userId s)(sock := uid)\<rparr>
              in Inr (s', io_emit (sockets s') ''user-list''
                            (JArr (map JStr (object_keys (users s'))))))))"

text \<open>
  \<^verbatim>\<open>socket.on('offer', (data) => ...)\<close>. The log line of the forwarding branch prints
  \<^verbatim>\<open>socket.userId\<close>.
\<close>

definition on_offer :: "login_server \<Rightarrow> sid \<Rightarrow> jsval \<Rightarrow> outcome" where
  "on_offer s sock data =
     (if \<not> object_coercible data then Inl TypeError
      else
        (let targetUserId = get_prop data ''targetUserId''; offer = get_prop data ''offer'' in
         case js_to_string targetUserId of
           Inl e \<Rightarrow> Inl e
         | Inr k \<Rightarrow>
             (let targetSocketId = lookup (users s) k in
              if slot_truthy targetSocketId then
                (case js_to_string (userId s sock) of
                   Inl e \<Rightarrow> Inl e
                 | Inr shown \<Rightarrow>
                     Inr (s, io_to_slot_emit (sockets s) targetSocketId ''offer''
                               (JObj [(''fromUserId'', userId s sock), (''offer'', offer)])))
              else Inr (s, []))))"

text \<open>\<^verbatim>\<open>socket.on('answer', (data) => ...)\<close>, the same with \<^verbatim>\<open>answer\<close>.\<close>

definition on_answer :: "login_server \<Rightarrow> sid \<Rightarrow> jsval \<Rightarrow> outcome" where
  "on_answer s sock data =
     (if \<not> object_coercible data then Inl TypeError
      else
        (let targetUserId = get_prop data ''targetUserId''; answer = get_prop data ''answer'' in
         case js_to_string targetUserId of
           Inl e \<Rightarrow> Inl e
         | Inr k \<Rightarrow>
             (let targetSocketId = lookup (users s) k in
              if slot_truthy targetSocketId then
                (case js_to_string (userId s sock) of
                   Inl e \<Rightarrow> Inl e
                 | Inr shown \<Rightarrow>
                     Inr (s, io_to_slot_emit (sockets s) targetSocketId ''answer''
                               (JObj [(''fromUserId'', userId s sock), (''answer'', answer)])))
              else Inr (s, []))))"

text \<open>
  \<^verbatim>\<open>socket.on('ice-candidate', (data) => ...)\<close>: its log line is commented out and it has
  no other branch.
\<close>

definition on_ice_candidate :: "login_server \<Rightarrow> sid \<Rightarrow> jsval \<Rightarrow> outcome" where
  "on_ice_candidate s sock data =
     (if \<not> object_coercible data then Inl TypeError
      else
        (let targetUserId = get_prop data ''targetUserId'';
             candidate = get_prop data ''candidate'' in
         case js_to_string targetUserId of
           Inl e \<Rightarrow> Inl e
         | Inr k \<Rightarrow>
             (let targetSocketId = lookup (users s) k in
              if slot_truthy targetSocketId then
                Inr (s, io_to_slot_emit (sockets s) targetSocketId ''ice-candidate''
                          (JObj [(''fromUserId'', userId s sock), (''candidate'', candidate)]))
              else Inr (s, []))))"

text \<open>\<^verbatim>\<open>socket.on('chat-message', (data) => ...)\<close>\<close>

definition on_chat_message :: "login_server \<Rightarrow> sid \<Rightarrow> jsval \<Rightarrow> outcome" where
  "on_chat_message s sock data =
     (if \<not> object_coercible data then Inl TypeError
      else
        (let targetUserId = get_prop data ''targetUserId''; message = get_prop data ''message'' in
         case js_to_string targetUserId of
           Inl e \<Rightarrow> Inl e
         | Inr k \<Rightarrow>
             (let targetSocketId = lookup (users s) k in
              if slot_truthy targetSocketId then
                (case js_to_string (userId s sock) of
                   Inl e \<Rightarrow> Inl e
                 | Inr shown \<Rightarrow>
                     Inr (s, io_to_slot_emit (sockets s) targetSocketId ''chat-message''
                               (JObj [(''fromUserId'', userId s sock), (''message'', message)])))
              else Inr (s, []))))"

text \<open>
  \<^verbatim>\<open>socket.on('disconnect', ...)\<close>. Socket.IO has taken the socket out of its room and
  out of the connected sockets before it runs the handler, so \<^verbatim>\<open>io.emit\<close> does not reach
  it. The log line prints \<^verbatim>\<open>socket.userId\<close>.
\<close>

definition on_disconnect :: "login_server \<Rightarrow> sid \<Rightarrow> outcome" where
  "on_disconnect s sock =
     (let s0 = s\<lparr>sockets := removeAll sock (sockets s)\<rparr> in
      if truthy (userId s0 sock) then
        (case js_to_string (userId s0 sock) of
           Inl e \<Rightarrow> Inl e
         | Inr k \<Rightarrow>
             (let s' = s0\<lparr>users := unregister k (users s0)\<rparr>
              in Inr (s', io_emit (sockets s') ''user-list''
                            (JArr (map JStr (object_keys (users s')))))))
      else Inr (s0, []))"

text \<open>The four relayed events, and the one entry point over all events.\<close>

datatype routed = Offer | Answer | IceCandidate | ChatMessage

fun event_name :: "routed \<Rightarrow> string" where
  "event_name Offer = ''offer''"
| "event_name Answer = ''answer''"
| "event_name IceCandidate = ''ice-candidate''"
| "event_name ChatMessage = ''chat-message''"

fun blob_field :: "routed \<Rightarrow> string" where
  "blob_field Offer = ''offer''"
| "blob_field Answer = ''answer''"
| "blob_field IceCandidate = ''candidate''"
| "blob_field ChatMessage = ''message''"

fun on_routed :: "routed \<Rightarrow> login_server \<Rightarrow> sid \<Rightarrow> jsval \<Rightarrow> outcome" where
  "on_routed Offer = on_offer"
| "on_routed Answer = on_answer"
| "on_routed IceCandidate = on_ice_candidate"
| "on_routed ChatMessage = on_chat_message"

datatype event =
    Connection sid
  | Login sid jsval
  | Routed routed sid jsval
  | Disconnect sid

fun handle :: "login_server \<Rightarrow> event \<Rightarrow> outcome" where
  "handle s (Connection sock) = on_connection s sock"
| "handle s (Login sock uid) = on_login s sock uid"
| "handle s (Routed r sock data) = on_routed r s sock data"
| "handle s (Disconnect sock) = on_disconnect s sock"

text \<open>
  A run of events from a state: the state after the last one and everything emitted on
  the way, or the first exception. Node does not catch an exception that a handler
  throws.
\<close>

fun run :: "login_server \<Rightarrow> event list \<Rightarrow> outcome" where
  "run s [] = Inr (s, [])"
| "run s (e # es) =
     (case handle s e of
        Inl err \<Rightarrow> Inl err
      | Inr (s', out) \<Rightarrow>
          (case run s' es of Inl err \<Rightarrow> Inl err | Inr (s'', out') \<Rightarrow> Inr (s'', out @ out')))"

subsection \<open>The discovery server\<close>

text \<open>
  The first server keeps no table of its own: a peer is known by its socket id, and the
  state is the list of connected sockets.
\<close>

type_synonym discovery_outcome = "(sid list \<times> emitted list) result"

text \<open>
  \<^verbatim>\<open>io.on('connection', ...)\<close>: the new socket is already among
  \<^verbatim>\<open>io.sockets.sockets\<close>, which is why the source filters its id out.
\<close>

definition discovery_connection :: "sid list \<Rightarrow> sid \<Rightarrow> discovery_outcome" where
  "discovery_connection socks sock =
     (let socks' = socks @ [sock];
          otherUsers = filter (\<lambda>c. c \<noteq> sock) socks'
      in Inr (socks',
              socket_emit sock ''users-present'' (JArr (map JStr otherUsers))
              @ broadcast_emit socks' sock ''user-joined'' (JStr sock)))"

text \<open>
  \<^verbatim>\<open>socket.on('signal', (data) => ...)\<close>: \<^verbatim>\<open>to\<close>, \<^verbatim>\<open>from\<close> and \<^verbatim>\<open>signal\<close> all come
  from the argument; the log line prints \<^verbatim>\<open>from\<close>, then \<^verbatim>\<open>to\<close>.
\<close>

definition discovery_signal :: "sid list \<Rightarrow> sid \<Rightarrow> jsval \<Rightarrow> discovery_outcome" where
  "discovery_signal socks sock data =
     (if \<not> object_coercible data then Inl TypeError
      else
        (let to = get_prop data ''to''; sender = get_prop data ''from'';
             signal = get_prop data ''signal'' in
         case js_to_string sender of
           Inl e \<Rightarrow> Inl e
         | Inr shown \<Rightarrow>
             (case js_to_string to of
                Inl e \<Rightarrow> Inl e
              | Inr shown' \<Rightarrow>
                  Inr (socks, io_to_emit socks to ''signal''
                                (JObj [(''from'', sender), (''signal'', signal)])))))"

text \<open>\<^verbatim>\<open>socket.on('disconnect', ...)\<close>: the socket has left before the handler runs.\<close>

definition discovery_disconnect :: "sid list \<Rightarrow> sid \<Rightarrow> discovery_outcome" where
  "discovery_disconnect socks sock =
     (let socks' = removeAll sock socks
      in Inr (socks', io_emit socks' ''user-left'' (JStr sock)))"

subsection \<open>Sequences of operations on the table\<close>






subsection \<open>States the handlers keep well formed\<close>

text \<open>
  Socket ids are distinct and not empty (Socket.IO draws them), no key of the table
  is held twice, and every \<^verbatim>\<open>userId\<close> has a text form, the login handler having
  printed it before storing it.
\<close>

definition well_formed :: "login_server \<Rightarrow> bool" where
  "well_formed s =
     (distinct (sockets s) \<and> [] \<notin> set (sockets s) \<and> distinct (map fst (users s))
      \<and> (\<forall>c. \<not> isl (js_to_string (userId s c))))"

subsection \<open>Example states\<close>

text \<open>
  Socket \<open>s1\<close> has logged in as \<open>alice\<close> and socket \<open>s2\<close> as \<open>bob\<close>.
\<close>

definition alice_bob :: login_server where
  "alice_bob =
     \<lparr>sockets = [''s1'', ''s2''], users = [(''alice'', ''s1''), (''bob'', ''s2'')],
      userId = (\<lambda>c. JUndefined)(''s1'' := JStr ''alice'', ''s2'' := JStr ''bob'')\<rparr>"

definition alice_bob_events :: "event list" where
  "alice_bob_events =
     [Connection ''s1'', Login ''s1'' (JStr ''alice''),
      Connection ''s2'', Login ''s2'' (JStr ''bob'')]"

text \<open>A third socket has connected to them and has not logged in.\<close>

definition with_guest :: login_server where
  "with_guest =
     \<lparr>sockets = [''s1'', ''s2'', ''s3''], users = [(''alice'', ''s1''), (''bob'', ''s2'')],
      userId = (\<lambda>c. JUndefined)
        (''s1'' := JStr ''alice'', ''s2'' := JStr ''bob'', ''s3'' := JUndefined)\<rparr>"

text \<open>
  Socket \<open>s1\<close> logs in as \<open>a\<close>, then as \<open>b\<close>, and disconnects after \<open>s2\<close> has
  connected: the disconnect handler removes \<open>b\<close>, and \<open>a\<close> stays in the table.
\<close>

definition stale_events :: "event list" where
  "stale_events =
     [Connection ''s1'', Login ''s1'' (JStr ''a''), Login ''s1'' (JStr ''b''),
      Connection ''s2'', Disconnect ''s1'']"

definition stale_state :: login_server where
  "stale_state =
     \<lparr>sockets = [''s2''], users = [(''a'', ''s1'')],
      userId = (\<lambda>c. JUndefined)(''s1'' := JStr ''b'', ''s2'' := JUndefined)\<rparr>"


section \<open>Properties\<close>

subsection \<open>The table\<close>

lemmas handler_defs = on_connection_def on_login_def on_disconnect_def on_offer_def
  on_answer_def on_ice_candidate_def on_chat_message_def

lemmas table_defs = register_def unregister_def lookup_def object_keys_def
  is_array_index_def is_digit_def object_prototype_names_def

lemmas emit_defs = io_emit_def io_to_emit_def io_to_slot_emit_def in_rooms_def socket_emit_def
  broadcast_emit_def




lemma own_unregister: "map_of (unregister k us) k = None"
  by (simp add: unregister_def delete_conv')

lemma lookup_Own: "lookup us k = Own c \<longleftrightarrow> map_of us k = Some c"
  by (simp add: lookup_def split: option.splits)


lemma distinct_register: "distinct (map fst us) \<Longrightarrow> distinct (map fst (register k c us))"
  by (simp add: register_def distinct_update)

lemma distinct_unregister: "distinct (map fst us) \<Longrightarrow> distinct (map fst (unregister k us))"
  by (simp add: unregister_def distinct_delete)

lemma keys_register:
  "fst ` set (register k c us) =
     (if k = ''__proto__'' then fst ` set us else insert k (fst ` set us))"
  by (simp add: register_def dom_update)

lemma keys_unregister: "fst ` set (unregister k us) = fst ` set us - {k}"
  by (auto simp: unregister_def AList.delete_eq)

lemma set_object_keys: "set (object_keys us) = fst ` set us"
  by (auto simp: object_keys_def)







subsection \<open>The emitters\<close>

lemma filter_eq_one: "distinct xs \<Longrightarrow> t \<in> set xs \<Longrightarrow> filter (\<lambda>c. c = t) xs = [t]"
  by (induction xs) (auto simp: filter_empty_conv)

lemma in_rooms_name: "in_rooms (JStr t) = (\<lambda>c. c = t)"
  by (auto simp: in_rooms_def fun_eq_iff)

lemma io_to_emit_connected:
  "distinct socks \<Longrightarrow> t \<in> set socks \<Longrightarrow> io_to_emit socks (JStr t) ev arg = [(t, ev, arg)]"
  by (simp add: io_to_emit_def in_rooms_name filter_eq_one)

lemma io_to_emit_gone: "t \<notin> set socks \<Longrightarrow> io_to_emit socks (JStr t) ev arg = []"
  by (auto simp: io_to_emit_def in_rooms_name filter_empty_conv)

lemma io_emit_each:
  "distinct socks \<Longrightarrow> c \<in> set socks \<Longrightarrow>
   filter (\<lambda>e. fst e = c) (io_emit socks ev arg) = [(c, ev, arg)]"
  by (simp add: io_emit_def filter_map comp_def filter_eq_one)

subsection \<open>The relaying handlers\<close>

lemma on_routed_forward:
  assumes "object_coercible data"
    and "js_to_string (get_prop data ''targetUserId'') = Inr k"
    and "slot_truthy (lookup (users s) k)"
    and "\<not> isl (js_to_string (userId s sock))"
  shows "on_routed r s sock data =
     Inr (s, io_to_slot_emit (sockets s) (lookup (users s) k) (event_name r)
               (JObj [(''fromUserId'', userId s sock),
                      (blob_field r, get_prop data (blob_field r))]))"
  using assms
  by (cases r)
    (auto simp: on_offer_def on_answer_def on_ice_candidate_def on_chat_message_def
       split: sum.splits)


lemma on_routed_emitted:
  assumes "on_routed r s sock data = Inr (s', out)"
  shows "s' = s \<and> (\<forall>e \<in> set out.
     snd (snd e) = JObj [(''fromUserId'', userId s sock),
                         (blob_field r, get_prop data (blob_field r))]
     \<and> fst (snd e) = event_name r)"
  using assms
  by (cases r)
    (auto simp: on_offer_def on_answer_def on_ice_candidate_def on_chat_message_def Let_def
       io_to_emit_def io_to_slot_emit_def split: sum.splits if_splits slot.splits)

subsection \<open>Login and disconnect\<close>

lemma on_login_truthy:
  assumes "truthy uid" and "js_to_string uid = Inr k"
  shows "on_login s sock uid =
     Inr (s\<lparr>users := register k sock (users s), userId := (userId s)(sock := uid)\<rparr>,
          io_emit (sockets s) ''user-list''
            (JArr (map JStr (object_keys (register k sock (users s))))))"
  using assms by (simp add: on_login_def)

lemma on_disconnect_logged_in:
  assumes "truthy (userId s sock)" and "js_to_string (userId s sock) = Inr k"
  shows "on_disconnect s sock =
     Inr (s\<lparr>sockets := removeAll sock (sockets s), users := unregister k (users s)\<rparr>,
          io_emit (removeAll sock (sockets s)) ''user-list''
            (JArr (map JStr (object_keys (unregister k (users s))))))"
  using assms by (simp add: on_disconnect_def)

lemma on_disconnect_not_logged_in:
  assumes "\<not> truthy (userId s sock)"
  shows "on_disconnect s sock = Inr (s\<lparr>sockets := removeAll sock (sockets s)\<rparr>, [])"
  using assms by (simp add: on_disconnect_def)

subsection \<open>Well-formed states\<close>

lemma well_formed_target:
  assumes "well_formed s" and "lookup (users s) k = Own t" and "t \<in> set (sockets s)"
  shows "distinct (sockets s)" and "slot_truthy (lookup (users s) k)"
    and "\<not> isl (js_to_string (userId s sock))"
  using assms by (auto simp: well_formed_def)


lemma well_formed_initial: "well_formed initial"
  by (simp add: well_formed_def initial_def)

lemma well_formed_connection:
  "well_formed s \<Longrightarrow> sock \<noteq> [] \<Longrightarrow> sock \<notin> set (sockets s) \<Longrightarrow>
   on_connection s sock = Inr (s', out) \<Longrightarrow> well_formed s'"
  by (auto simp: well_formed_def on_connection_def split: if_splits)

lemma well_formed_login:
  "well_formed s \<Longrightarrow> on_login s sock uid = Inr (s', out) \<Longrightarrow> well_formed s'"
  by (auto simp: well_formed_def on_login_def Let_def distinct_register
      split: if_splits sum.splits)

lemma well_formed_routed:
  "well_formed s \<Longrightarrow> on_routed r s sock data = Inr (s', out) \<Longrightarrow> well_formed s'"
  using on_routed_emitted by blast

lemma well_formed_disconnect:
  "well_formed s \<Longrightarrow> on_disconnect s sock = Inr (s', out) \<Longrightarrow> well_formed s'"
  by (auto simp: well_formed_def on_disconnect_def Let_def distinct_unregister
      distinct_removeAll split: if_splits sum.splits)

text \<open>
  Every handler keeps a state well formed, a connection bringing a socket id that is
  not empty and not in use.
\<close>

lemma well_formed_handle:
  assumes "well_formed s"
    and "\<And>sock. e = Connection sock \<Longrightarrow> sock \<noteq> [] \<and> sock \<notin> set (sockets s)"
    and "handle s e = Inr (s', out)"
  shows "well_formed s'"
proof (cases e)
  case (Connection sock)
  then show ?thesis
    using assms well_formed_connection [of s sock s' out] by simp
next
  case (Login sock uid)
  then show ?thesis
    using assms well_formed_login [of s sock uid s' out] by simp
next
  case (Routed r sock data)
  then show ?thesis
    using assms well_formed_routed [of s r sock data s' out] by simp
next
  case (Disconnect sock)
  then show ?thesis
    using assms well_formed_disconnect [of s sock s' out] by simp
qed

subsection \<open>The example states\<close>

lemma alice_bob_reached:
  "run initial alice_bob_events =
     Inr (alice_bob,
          [(''s1'', ''user-list'', JArr [JStr ''alice'']),
           (''s1'', ''user-list'', JArr [JStr ''alice'', JStr ''bob'']),
           (''s2'', ''user-list'', JArr [JStr ''alice'', JStr ''bob''])])"
  by (simp add: alice_bob_events_def alice_bob_def initial_def handler_defs table_defs
      emit_defs)

lemma with_guest_reached: "on_connection alice_bob ''s3'' = Inr (with_guest, [])"
  by (simp add: alice_bob_def with_guest_def on_connection_def)

lemma stale_state_reached:
  "run initial stale_events =
     Inr (stale_state,
          [(''s1'', ''user-list'', JArr [JStr ''a'']),
           (''s1'', ''user-list'', JArr [JStr ''a'', JStr ''b'']),
           (''s2'', ''user-list'', JArr [JStr ''a''])])"
  by (simp add: stale_events_def stale_state_def initial_def handler_defs table_defs
      emit_defs)

lemma well_formed_alice_bob: "well_formed alice_bob"
  by (simp add: well_formed_def alice_bob_def)

lemma well_formed_with_guest: "well_formed with_guest"
  by (simp add: well_formed_def with_guest_def)

lemma well_formed_stale_state: "well_formed stale_state"
  by (simp add: well_formed_def stale_state_def)

section \<open>The claims\<close>

subsection \<open>Relaying to a target that is in the table\<close>

text \<open>
  Claim C1, as amended. In the login server, a relayed event (\<^verbatim>\<open>offer\<close>, \<^verbatim>\<open>answer\<close>,
  \<^verbatim>\<open>ice-candidate\<close>, \<^verbatim>\<open>chat-message\<close>) whose target id the table maps to a socket that
  is still connected emits exactly one event, to that socket, and the \<^verbatim>\<open>fromUserId\<close> of
  that event is the \<^verbatim>\<open>userId\<close> the server holds for the sending socket, whatever the
  argument of the event contains.
\<close>

theorem routed_to_connected_target:
  assumes "well_formed s"
    and "object_coercible data"
    and "js_to_string (get_prop data ''targetUserId'') = Inr k"
    and "lookup (users s) k = Own t"
    and "t \<in> set (sockets s)"
  shows "on_routed r s sock data =
     Inr (s, [(t, event_name r,
               JObj [(''fromUserId'', userId s sock),
                     (blob_field r, get_prop data (blob_field r))])])"
proof -
  note wf = well_formed_target [OF assms(1) assms(4) assms(5)]
  have "on_routed r s sock data =
     Inr (s, io_to_slot_emit (sockets s) (lookup (users s) k) (event_name r)
               (JObj [(''fromUserId'', userId s sock),
                      (blob_field r, get_prop data (blob_field r))]))"
    using assms(2) assms(3) wf(2) wf(3) by (rule on_routed_forward)
  then show ?thesis
    using wf(1) assms(4) assms(5) by (simp add: io_to_slot_emit_def io_to_emit_connected)
qed

text \<open>
  Alice's socket sends Bob an offer and puts a \<^verbatim>\<open>fromUserId\<close> of its own choice in the
  argument; Bob's socket receives the offer from \<open>alice\<close>.
\<close>

theorem routed_to_connected_target_witness:
  "well_formed alice_bob
   \<and> object_coercible (JObj [(''targetUserId'', JStr ''bob''), (''offer'', JStr ''sdp1''),
                              (''fromUserId'', JStr ''mallory'')])
   \<and> js_to_string (get_prop (JObj [(''targetUserId'', JStr ''bob''), (''offer'', JStr ''sdp1''),
                              (''fromUserId'', JStr ''mallory'')]) ''targetUserId'') = Inr ''bob''
   \<and> lookup (users alice_bob) ''bob'' = Own ''s2''
   \<and> ''s2'' \<in> set (sockets alice_bob)
   \<and> on_routed Offer alice_bob ''s1''
         (JObj [(''targetUserId'', JStr ''bob''), (''offer'', JStr ''sdp1''),
                (''fromUserId'', JStr ''mallory'')])
       = Inr (alice_bob,
              [(''s2'', ''offer'',
                JObj [(''fromUserId'', JStr ''alice''), (''offer'', JStr ''sdp1'')])])"
  using routed_to_connected_target
    [of alice_bob "JObj [(''targetUserId'', JStr ''bob''), (''offer'', JStr ''sdp1''),
                (''fromUserId'', JStr ''mallory'')]" "''bob''" "''s2''" Offer "''s1''"]
    well_formed_alice_bob
  by (simp add: object_coercible_def get_prop_def lookup_def alice_bob_def)

text \<open>
  The claim as first stated fails twice. After \<open>stale_events\<close> the table still maps
  \<open>a\<close> to the socket \<open>s1\<close>, which has disconnected, and an offer to \<open>a\<close> reaches
  nobody. And the \<^verbatim>\<open>signal\<close> handler of the discovery server forwards the \<^verbatim>\<open>from\<close> of
  the argument: socket \<open>s1\<close> signs as \<open>mallory\<close>.
\<close>

theorem stale_target_and_spoofed_signal:
  "run initial stale_events =
     Inr (stale_state,
          [(''s1'', ''user-list'', JArr [JStr ''a'']),
           (''s1'', ''user-list'', JArr [JStr ''a'', JStr ''b'']),
           (''s2'', ''user-list'', JArr [JStr ''a''])])
   \<and> lookup (users stale_state) ''a'' = Own ''s1''
   \<and> on_routed Offer stale_state ''s2''
         (JObj [(''targetUserId'', JStr ''a''), (''offer'', JStr ''sdp1'')])
       = Inr (stale_state, [])
   \<and> discovery_signal [''s1'', ''s2''] ''s1''
         (JObj [(''to'', JStr ''s2''), (''from'', JStr ''mallory''), (''signal'', JStr ''sdp1'')])
       = Inr ([''s1'', ''s2''],
              [(''s2'', ''signal'',
                JObj [(''from'', JStr ''mallory''), (''signal'', JStr ''sdp1'')])])"
  by (simp add: stale_state_reached)
    (simp add: stale_state_def lookup_def on_offer_def discovery_signal_def object_coercible_def
      get_prop_def emit_defs)

subsection \<open>Sequences of registrations and removals\<close>




subsection \<open>A target that is not in the table\<close>




subsection \<open>Disconnecting after a login\<close>

text \<open>
  Claim C4, as amended. When a socket whose \<^verbatim>\<open>userId\<close> is set disconnects, the entry
  that the table holds under that \<^verbatim>\<open>userId\<close>, the id the socket logged in with last, is
  deleted, and every other connected socket receives exactly one \<^verbatim>\<open>user-list\<close> event,
  whose argument is the list of the keys that the table keeps: the deleted id is not in
  it. The socket that left receives nothing. A notice that carries the id
  of the peer that left is what the discovery server sends: \<^verbatim>\<open>user-left\<close> with the socket
  id, to every socket that remains.
\<close>

theorem disconnect_removes_id_and_sends_user_list:
  assumes "well_formed s"
    and "truthy (userId s sock)"
    and "js_to_string (userId s sock) = Inr k"
  shows "on_disconnect s sock =
       Inr (s\<lparr>sockets := removeAll sock (sockets s), users := unregister k (users s)\<rparr>,
            io_emit (removeAll sock (sockets s)) ''user-list''
              (JArr (map JStr (object_keys (unregister k (users s))))))
     \<and> map_of (unregister k (users s)) k = None
     \<and> k \<notin> set (object_keys (unregister k (users s)))
     \<and> (\<forall>c \<in> set (sockets s) - {sock}.
          filter (\<lambda>e. fst e = c)
            (io_emit (removeAll sock (sockets s)) ''user-list''
              (JArr (map JStr (object_keys (unregister k (users s))))))
          = [(c, ''user-list'', JArr (map JStr (object_keys (unregister k (users s)))))])
     \<and> filter (\<lambda>e. fst e = sock)
            (io_emit (removeAll sock (sockets s)) ''user-list''
              (JArr (map JStr (object_keys (unregister k (users s)))))) = []
     \<and> discovery_disconnect socks sock =
         Inr (removeAll sock socks, io_emit (removeAll sock socks) ''user-left'' (JStr sock))"
proof -
  have d: "distinct (removeAll sock (sockets s))"
    using assms(1) by (simp add: well_formed_def distinct_removeAll)
  have each: "\<forall>c \<in> set (sockets s) - {sock}.
      filter (\<lambda>e. fst e = c)
        (io_emit (removeAll sock (sockets s)) ''user-list''
          (JArr (map JStr (object_keys (unregister k (users s))))))
      = [(c, ''user-list'', JArr (map JStr (object_keys (unregister k (users s)))))]"
    using d by (simp add: io_emit_each)
  have none: "filter (\<lambda>e. fst e = sock)
        (io_emit (removeAll sock (sockets s)) ''user-list''
          (JArr (map JStr (object_keys (unregister k (users s)))))) = []"
    by (auto simp: io_emit_def filter_empty_conv)
  have disc: "discovery_disconnect socks sock =
         Inr (removeAll sock socks, io_emit (removeAll sock socks) ''user-left'' (JStr sock))"
    by (simp add: discovery_disconnect_def Let_def)
  show ?thesis
    using on_disconnect_logged_in [OF assms(2) assms(3)] each none disc
    by (simp add: own_unregister set_object_keys keys_unregister)
qed

theorem disconnect_removes_id_and_sends_user_list_witness:
  "well_formed alice_bob \<and> truthy (userId alice_bob ''s1'')
   \<and> js_to_string (userId alice_bob ''s1'') = Inr ''alice''
   \<and> on_disconnect alice_bob ''s1'' =
       Inr (alice_bob\<lparr>sockets := [''s2''], users := [(''bob'', ''s2'')]\<rparr>,
            [(''s2'', ''user-list'', JArr [JStr ''bob''])])
   \<and> map_of [(''bob'', ''s2'')] ''alice'' = (None :: sid option)
   \<and> discovery_disconnect [''s1'', ''s2''] ''s1'' =
       Inr ([''s2''], [(''s2'', ''user-left'', JStr ''s1'')])"
  using disconnect_removes_id_and_sends_user_list
    [of alice_bob "''s1''" "''alice''" "[''s1'', ''s2'']"]
    well_formed_alice_bob
  by (simp add: alice_bob_def table_defs emit_defs)

text \<open>
  The claim as first stated asks for a notice that names the id. In the state reached
  by \<open>alice_bob_events\<close>, Alice's socket disconnects and Bob's socket receives the list
  \<open>[bob]\<close>: the one event emitted does not contain \<open>alice\<close>.
\<close>

theorem leave_notice_does_not_name_id:
  "run initial (alice_bob_events @ [Disconnect ''s1'']) =
       Inr (alice_bob\<lparr>sockets := [''s2''], users := [(''bob'', ''s2'')]\<rparr>,
            [(''s1'', ''user-list'', JArr [JStr ''alice'']),
             (''s1'', ''user-list'', JArr [JStr ''alice'', JStr ''bob'']),
             (''s2'', ''user-list'', JArr [JStr ''alice'', JStr ''bob'']),
             (''s2'', ''user-list'', JArr [JStr ''bob''])])
   \<and> userId alice_bob ''s1'' = JStr ''alice''
   \<and> on_disconnect alice_bob ''s1'' =
       Inr (alice_bob\<lparr>sockets := [''s2''], users := [(''bob'', ''s2'')]\<rparr>,
            [(''s2'', ''user-list'', JArr [JStr ''bob''])])
   \<and> JStr ''alice'' \<notin> set [JStr ''bob'']"
  by (simp add: alice_bob_events_def alice_bob_def initial_def handler_defs table_defs
      emit_defs)

subsection \<open>Two sockets with one id\<close>




subsection \<open>Login with a falsy id\<close>

text \<open>The values that \<^verbatim>\<open>if (!userId) return\<close> turns away.\<close>

lemma falsy_values:
  "\<not> truthy uid \<longleftrightarrow>
     uid \<in> {JUndefined, JNull, JBool False, JNum ''0'', JNum ''NaN'', JStr ''''}"
  by (cases uid) auto

text \<open>
  Claim C6. A \<^verbatim>\<open>login\<close> event with an empty or otherwise falsy id is ignored: nothing is
  emitted and the state is the one before, so the table is unchanged and the socket's
  \<^verbatim>\<open>userId\<close> is what it was (\<^verbatim>\<open>undefined\<close> for a socket that had not logged in).
\<close>

theorem login_falsy_ignored:
  assumes "\<not> truthy uid"
  shows "on_login s sock uid = Inr (s, [])"
  using assms by (simp add: on_login_def)

theorem login_falsy_ignored_witness:
  "\<not> truthy (JStr '''') \<and> on_login with_guest ''s3'' (JStr '''') = Inr (with_guest, [])
   \<and> userId with_guest ''s3'' = JUndefined"
  using login_falsy_ignored [of "JStr ''''" with_guest "''s3''"]
  by (simp add: with_guest_def)

subsection \<open>Login with a truthy id\<close>

text \<open>
  Claim C7. A \<^verbatim>\<open>login\<close> event with a truthy id that has a text form updates the table
  and emits the \<^verbatim>\<open>user-list\<close> event, whose argument lists the keys of the updated table:
  every connected socket other than the one that logs in receives it, exactly once. (The
  emit is \<^verbatim>\<open>io.emit\<close>, so the socket that logs in, being connected, receives it as well.)
\<close>

theorem login_sends_user_list_to_others:
  assumes "distinct (sockets s)"
    and "truthy uid"
    and "js_to_string uid = Inr k"
  shows "on_login s sock uid =
       Inr (s\<lparr>users := register k sock (users s), userId := (userId s)(sock := uid)\<rparr>,
            io_emit (sockets s) ''user-list''
              (JArr (map JStr (object_keys (register k sock (users s))))))
     \<and> set (object_keys (register k sock (users s))) =
         (if k = ''__proto__'' then fst ` set (users s) else insert k (fst ` set (users s)))
     \<and> (\<forall>c \<in> set (sockets s) - {sock}.
          filter (\<lambda>e. fst e = c)
            (io_emit (sockets s) ''user-list''
              (JArr (map JStr (object_keys (register k sock (users s))))))
          = [(c, ''user-list'', JArr (map JStr (object_keys (register k sock (users s)))))])"
  using assms on_login_truthy [OF assms(2) assms(3)]
  by (simp add: io_emit_each set_object_keys keys_register)

text \<open>
  Bob's socket logs in again, with the number \<open>7\<close>: the key is the text \<open>7\<close>, which
  \<^verbatim>\<open>Object.keys\<close> lists first.
\<close>

theorem login_sends_user_list_to_others_witness:
  "distinct (sockets alice_bob) \<and> truthy (JNum ''7'') \<and> js_to_string (JNum ''7'') = Inr ''7''
   \<and> on_login alice_bob ''s2'' (JNum ''7'') =
       Inr (alice_bob\<lparr>users := [(''alice'', ''s1''), (''bob'', ''s2''), (''7'', ''s2'')],
                       userId := (userId alice_bob)(''s2'' := JNum ''7'')\<rparr>,
            [(''s1'', ''user-list'', JArr [JStr ''7'', JStr ''alice'', JStr ''bob'']),
             (''s2'', ''user-list'', JArr [JStr ''7'', JStr ''alice'', JStr ''bob''])])"
  using login_sends_user_list_to_others [of alice_bob "JNum ''7''" "''7''" "''s2''"]
  by (simp add: alice_bob_def table_defs emit_defs digits_val_def)

subsection \<open>What a new connection is sent\<close>

text \<open>
  Claim C8, as amended. In the discovery server, a new connection is sent, before
  anything else, one \<^verbatim>\<open>users-present\<close> event whose argument lists the ids of the other
  connected sockets; every other socket is sent \<^verbatim>\<open>user-joined\<close>. The login server emits
  nothing when a socket connects.
\<close>

theorem discovery_connection_sends_users_present:
  assumes "sock \<notin> set socks"
  shows "discovery_connection socks sock =
       Inr (socks @ [sock],
            (sock, ''users-present'', JArr (map JStr socks))
            # map (\<lambda>c. (c, ''user-joined'', JStr sock)) socks)
     \<and> on_connection s sock =
       Inr (s\<lparr>sockets := sockets s @ [sock], userId := (userId s)(sock := JUndefined)\<rparr>, [])"
proof -
  have "filter (\<lambda>c. c \<noteq> sock) socks = socks"
    using assms by (auto simp: filter_id_conv)
  then show ?thesis
    by (simp add: discovery_connection_def socket_emit_def broadcast_emit_def on_connection_def)
qed

theorem discovery_connection_sends_users_present_witness:
  "''s3'' \<notin> set [''s1'', ''s2'']
   \<and> discovery_connection [''s1'', ''s2''] ''s3'' =
       Inr ([''s1'', ''s2'', ''s3''],
            [(''s3'', ''users-present'', JArr [JStr ''s1'', JStr ''s2'']),
             (''s1'', ''user-joined'', JStr ''s3''),
             (''s2'', ''user-joined'', JStr ''s3'')])"
  using discovery_connection_sends_users_present [of "''s3''" "[''s1'', ''s2'']"]
  by simp

text \<open>
  The claim as first stated holds of every server. In the login server, with \<open>alice\<close> and
  \<open>bob\<close> in the table, a third socket connects and is sent nothing.
\<close>

theorem login_server_connection_sends_nothing:
  "on_connection alice_bob ''s3'' = Inr (with_guest, [])
   \<and> object_keys (users alice_bob) = [''alice'', ''bob'']"
  by (simp add: with_guest_reached) (simp add: alice_bob_def table_defs)

subsection \<open>The relayed argument\<close>

text \<open>
  Claim C9. Whatever a relaying handler emits has as its argument the object made of
  \<^verbatim>\<open>fromUserId\<close> and of the one field the event relays (\<^verbatim>\<open>offer\<close>, \<^verbatim>\<open>answer\<close>,
  \<^verbatim>\<open>candidate\<close> or \<^verbatim>\<open>message\<close>), and that field is the value the sender supplied, as it
  was supplied; the state is not changed.
\<close>

theorem relayed_blob_unchanged:
  assumes "on_routed r s sock data = Inr (s', out)"
    and "(c, ev, arg) \<in> set out"
  shows "arg = JObj [(''fromUserId'', userId s sock),
                     (blob_field r, get_prop data (blob_field r))]
     \<and> get_prop arg (blob_field r) = get_prop data (blob_field r)
     \<and> ev = event_name r
     \<and> s' = s"
proof -
  have "blob_field r \<noteq> ''fromUserId''"
    by (cases r) simp_all
  then show ?thesis
    using on_routed_emitted [OF assms(1)] assms(2) by (auto simp: get_prop_def)
qed

theorem relayed_blob_unchanged_witness:
  "on_routed ChatMessage alice_bob ''s1''
      (JObj [(''targetUserId'', JStr ''bob''),
             (''message'', JObj [(''text'', JStr ''hi''), (''n'', JArr [JNum ''1'', JNull])])])
     = Inr (alice_bob,
            [(''s2'', ''chat-message'',
              JObj [(''fromUserId'', JStr ''alice''),
                    (''message'', JObj [(''text'', JStr ''hi''), (''n'', JArr [JNum ''1'', JNull])])])])
   \<and> get_prop (JObj [(''fromUserId'', JStr ''alice''),
                    (''message'', JObj [(''text'', JStr ''hi''), (''n'', JArr [JNum ''1'', JNull])])])
        ''message''
     = get_prop (JObj [(''targetUserId'', JStr ''bob''),
             (''message'', JObj [(''text'', JStr ''hi''), (''n'', JArr [JNum ''1'', JNull])])])
        ''message''"
proof -
  have run: "on_routed ChatMessage alice_bob ''s1''
      (JObj [(''targetUserId'', JStr ''bob''),
             (''message'', JObj [(''text'', JStr ''hi''), (''n'', JArr [JNum ''1'', JNull])])])
     = Inr (alice_bob,
            [(''s2'', ''chat-message'',
              JObj [(''fromUserId'', JStr ''alice''),
                    (''message'', JObj [(''text'', JStr ''hi''), (''n'', JArr [JNum ''1'', JNull])])])])"
    by (simp add: on_chat_message_def alice_bob_def object_coercible_def get_prop_def lookup_def
        emit_defs)
  show ?thesis
    using run relayed_blob_unchanged [OF run, of "''s2''" "''chat-message''"
        "JObj [(''fromUserId'', JStr ''alice''),
                    (''message'', JObj [(''text'', JStr ''hi''), (''n'', JArr [JNum ''1'', JNull])])]"]
    by (simp add: get_prop_def)
qed

subsection \<open>A sender that has not logged in\<close>

text \<open>
  Claim C10. A socket that has not logged in, so that its \<^verbatim>\<open>userId\<close> is
  \<^verbatim>\<open>undefined\<close>, can send a relayed event to a target whose socket is connected: the
  event is delivered, once, with \<^verbatim>\<open>fromUserId\<close> undefined.
\<close>

theorem unannounced_sender_relayed:
  assumes "well_formed s"
    and "userId s sock = JUndefined"
    and "object_coercible data"
    and "js_to_string (get_prop data ''targetUserId'') = Inr k"
    and "lookup (users s) k = Own t"
    and "t \<in> set (sockets s)"
  shows "on_routed r s sock data =
     Inr (s, [(t, event_name r,
               JObj [(''fromUserId'', JUndefined),
                     (blob_field r, get_prop data (blob_field r))])])"
proof -
  note wf = well_formed_target [OF assms(1) assms(5) assms(6)]
  have "on_routed r s sock data =
     Inr (s, io_to_slot_emit (sockets s) (lookup (users s) k) (event_name r)
               (JObj [(''fromUserId'', userId s sock),
                      (blob_field r, get_prop data (blob_field r))]))"
    using assms(3) assms(4) wf(2) wf(3) by (rule on_routed_forward)
  then show ?thesis
    using wf(1) assms(2) assms(5) assms(6) by (simp add: io_to_slot_emit_def io_to_emit_connected)
qed

text \<open>The guest, which has only connected, sends Alice an offer.\<close>

theorem unannounced_sender_relayed_witness:
  "on_connection alice_bob ''s3'' = Inr (with_guest, [])
   \<and> well_formed with_guest
   \<and> userId with_guest ''s3'' = JUndefined
   \<and> object_coercible (JObj [(''targetUserId'', JStr ''alice''), (''offer'', JStr ''sdp1'')])
   \<and> js_to_string (get_prop (JObj [(''targetUserId'', JStr ''alice''), (''offer'', JStr ''sdp1'')])
         ''targetUserId'') = Inr ''alice''
   \<and> lookup (users with_guest) ''alice'' = Own ''s1''
   \<and> ''s1'' \<in> set (sockets with_guest)
   \<and> on_routed Offer with_guest ''s3''
         (JObj [(''targetUserId'', JStr ''alice''), (''offer'', JStr ''sdp1'')])
       = Inr (with_guest,
              [(''s1'', ''offer'',
                JObj [(''fromUserId'', JUndefined), (''offer'', JStr ''sdp1'')])])"
  using unannounced_sender_relayed
    [of with_guest "''s3''" "JObj [(''targetUserId'', JStr ''alice''), (''offer'', JStr ''sdp1'')]"
        "''alice''" "''s1''" Offer]
    well_formed_with_guest with_guest_reached
  by (simp add: object_coercible_def get_prop_def lookup_def with_guest_def)

end
